theory Spec2Isabelle
  imports Main
begin

section \<open>Text primitives\<close>

text \<open>
  JavaScript strings are modelled by \<^typ>\<open>string\<close>. The non-ASCII literals of the source
  (error prefixes, the placeholder title, one keyword) are written as their UTF-8 bytes.
  White space is the ASCII part of the regular expression class \<^verbatim>\<open>\s\<close>, and
  \<^verbatim>\<open>toLowerCase\<close> maps the ASCII letters; the case mapping and the white space of
  the rest of Unicode are outside the model.
\<close>

definition isSpace :: "char \<Rightarrow> bool" where
  "isSpace c = (c \<in> set [CHR 0x09, CHR 0x0A, CHR 0x0B, CHR 0x0C, CHR 0x0D, CHR 0x20])"

definition lowerChar :: "char \<Rightarrow> char" where
  "lowerChar c =
     (let n = (of_char c :: nat) in if 65 \<le> n \<and> n \<le> 90 then char_of (n + 32) else c)"

definition toLowerCase :: "string \<Rightarrow> string" where
  "toLowerCase s = map lowerChar s"

text \<open>\<^verbatim>\<open>hay.includes(needle)\<close>: the needle occurs at some position of the hay.\<close>

primrec str_includes :: "string \<Rightarrow> string \<Rightarrow> bool" where
  "str_includes [] needle = (needle = [])"
| "str_includes (h # hs) needle = (take (length needle) (h # hs) = needle \<or> str_includes hs needle)"

definition startsWith :: "string \<Rightarrow> string \<Rightarrow> bool" where
  "startsWith s p = (take (length p) s = p)"

definition trim :: "string \<Rightarrow> string" where
  "trim s = rev (dropWhile isSpace (rev (dropWhile isSpace s)))"

text \<open>\<^verbatim>\<open>xs.join(sep)\<close>\<close>

fun join :: "string \<Rightarrow> string list \<Rightarrow> string" where
  "join sep [] = []"
| "join sep [x] = x"
| "join sep (x # y # ys) = x @ sep @ join sep (y # ys)"

text \<open>\<^verbatim>\<open>if (s)\<close> on an optional string: undefined and the empty string are falsy.\<close>

definition given :: "string option \<Rightarrow> string option" where
  "given so = (case so of None \<Rightarrow> None | Some s \<Rightarrow> if s = [] then None else Some s)"

text \<open>\<^verbatim>\<open>[...new Set(xs)]\<close>: the first occurrence of every element, in order.\<close>

definition dedupe :: "'a list \<Rightarrow> 'a list" where
  "dedupe xs = rev (remdups (rev xs))"

text \<open>\<^verbatim>\<open>text.replace(/\s+/g, " ")\<close>\<close>

function collapseWhitespace :: "string \<Rightarrow> string" where
  "collapseWhitespace [] = []"
| "collapseWhitespace (c # cs) =
     (if isSpace c then CHR 0x20 # collapseWhitespace (dropWhile isSpace cs)
      else c # collapseWhitespace cs)"
  by pat_completeness auto
termination
  by (relation "measure length") (auto simp: length_dropWhile_le less_Suc_eq_le)

text \<open>
  \<^verbatim>\<open>text.replace(/\n\s*\n/g, "\n\n")\<close>: at a newline, the greedy \<^verbatim>\<open>\s*\<close> runs to
  the last newline of the white space that follows; the match is replaced by two
  newlines and the scan goes on behind it.
\<close>

function replaceBlankLines :: "string \<Rightarrow> string" where
  "replaceBlankLines [] = []"
| "replaceBlankLines (c # cs) =
     (if c = CHR 0x0A \<and> CHR 0x0A \<in> set (takeWhile isSpace cs)
      then CHR 0x0A # CHR 0x0A #
           replaceBlankLines
             (rev (takeWhile (\<lambda>x. x \<noteq> CHR 0x0A) (rev (takeWhile isSpace cs))) @ dropWhile isSpace cs)
      else c # replaceBlankLines cs)"
  by pat_completeness auto
termination
proof (relation "measure length", goal_cases)
  case 1
  show ?case by simp
next
  case (2 c cs)
  have "length (takeWhile (\<lambda>x. x \<noteq> CHR 0x0A) (rev (takeWhile isSpace cs))) \<le> length (takeWhile isSpace cs)"
    by (metis length_rev length_takeWhile_le)
  moreover have "length (takeWhile isSpace cs) + length (dropWhile isSpace cs) = length cs"
    by (metis length_append takeWhile_dropWhile_id)
  ultimately show ?case by simp
next
  case (3 c cs)
  show ?case by simp
qed

text \<open>\<^verbatim>\<open>cleanText\<close>, the same three steps in \<^verbatim>\<open>WebScraper\<close> and in \<^verbatim>\<open>RuleEngine\<close>.\<close>

definition cleanText :: "string \<Rightarrow> string" where
  "cleanText text = trim (replaceBlankLines (collapseWhitespace text))"

subsection \<open>String constants of the source\<close>

text \<open>"Axios" followed by the Chinese for "scrape failed", a colon and a space.\<close>

definition axiosFailed :: string where
  "axiosFailed = [CHR 0x41, CHR 0x78, CHR 0x69, CHR 0x6F, CHR 0x73, CHR 0xE7, CHR 0x88, CHR 0xAC,
     CHR 0xE5, CHR 0x8F, CHR 0x96, CHR 0xE5, CHR 0xA4, CHR 0xB1, CHR 0xE8, CHR 0xB4, CHR 0xA5,
     CHR 0x3A, CHR 0x20]"

text \<open>"Puppeteer" followed by the same words.\<close>

definition puppeteerFailed :: string where
  "puppeteerFailed = [CHR 0x50, CHR 0x75, CHR 0x70, CHR 0x70, CHR 0x65, CHR 0x74, CHR 0x65,
     CHR 0x65, CHR 0x72, CHR 0xE7, CHR 0x88, CHR 0xAC, CHR 0xE5, CHR 0x8F, CHR 0x96, CHR 0xE5,
     CHR 0xA4, CHR 0xB1, CHR 0xE8, CHR 0xB4, CHR 0xA5, CHR 0x3A, CHR 0x20]"

text \<open>The placeholder title ("no title").\<close>

definition noTitle :: string where
  "noTitle = [CHR 0xE6, CHR 0x97, CHR 0xA0, CHR 0xE6, CHR 0xA0, CHR 0x87, CHR 0xE9, CHR 0xA2, CHR 0x98]"

text \<open>The prefix of the browser manager's error ("browser initialisation failed").\<close>

definition browserInitFailed :: string where
  "browserInitFailed = [CHR 0x5B, CHR 0xE6, CHR 0xB5, CHR 0x8F, CHR 0xE8, CHR 0xA7, CHR 0x88,
     CHR 0xE5, CHR 0x99, CHR 0xA8, CHR 0xE7, CHR 0xAE, CHR 0xA1, CHR 0xE7, CHR 0x90, CHR 0x86,
     CHR 0xE5, CHR 0x99, CHR 0xA8, CHR 0x5D, CHR 0x20, CHR 0xE6, CHR 0xB5, CHR 0x8F, CHR 0xE8,
     CHR 0xA7, CHR 0x88, CHR 0xE5, CHR 0x99, CHR 0xA8, CHR 0xE5, CHR 0x88, CHR 0x9D, CHR 0xE5,
     CHR 0xA7, CHR 0x8B, CHR 0xE5, CHR 0x8C, CHR 0x96, CHR 0xE5, CHR 0xA4, CHR 0xB1, CHR 0xE8,
     CHR 0xB4, CHR 0xA5, CHR 0x3A, CHR 0x20]"

text \<open>"Puppeteer gave no valid browser path after its start."\<close>

definition noBrowserPath :: string where
  "noBrowserPath = [CHR 0x50, CHR 0x75, CHR 0x70, CHR 0x70, CHR 0x65, CHR 0x74, CHR 0x65,
     CHR 0x65, CHR 0x72, CHR 0xE5, CHR 0x90, CHR 0xAF, CHR 0xE5, CHR 0x8A, CHR 0xA8, CHR 0xE5,
     CHR 0x90, CHR 0x8E, CHR 0xE6, CHR 0x9C, CHR 0xAA, CHR 0xE8, CHR 0x83, CHR 0xBD, CHR 0xE6,
     CHR 0x8F, CHR 0x90, CHR 0xE4, CHR 0xBE, CHR 0x9B, CHR 0xE6, CHR 0x9C, CHR 0x89, CHR 0xE6,
     CHR 0x95, CHR 0x88, CHR 0xE7, CHR 0x9A, CHR 0x84, CHR 0xE6, CHR 0xB5, CHR 0x8F, CHR 0xE8,
     CHR 0xA7, CHR 0x88, CHR 0xE5, CHR 0x99, CHR 0xA8, CHR 0xE8, CHR 0xB7, CHR 0xAF, CHR 0xE5,
     CHR 0xBE, CHR 0x84, CHR 0xE3, CHR 0x80, CHR 0x82]"

text \<open>The two halves of "rule set "NAME" does not exist".\<close>

definition ruleSetMissing1 :: string where
  "ruleSetMissing1 = [CHR 0xE8, CHR 0xA7, CHR 0x84, CHR 0xE5, CHR 0x88, CHR 0x99, CHR 0xE9,
     CHR 0x9B, CHR 0x86, CHR 0x20, CHR 0x22]"

definition ruleSetMissing2 :: string where
  "ruleSetMissing2 = [CHR 0x22, CHR 0x20, CHR 0xE4, CHR 0xB8, CHR 0x8D, CHR 0xE5, CHR 0xAD,
     CHR 0x98, CHR 0xE5, CHR 0x9C, CHR 0xA8]"



text \<open>The first keyword of the heuristic ("you need to allow this site to run JavaScript").\<close>

definition keywordAllowJS :: string where
  "keywordAllowJS = [CHR 0xE6, CHR 0x82, CHR 0xA8, CHR 0xE9, CHR 0x9C, CHR 0x80, CHR 0xE8,
     CHR 0xA6, CHR 0x81, CHR 0xE5, CHR 0x85, CHR 0x81, CHR 0xE8, CHR 0xAE, CHR 0xB8, CHR 0xE8,
     CHR 0xAF, CHR 0xA5, CHR 0xE7, CHR 0xBD, CHR 0x91, CHR 0xE7, CHR 0xAB, CHR 0x99, CHR 0xE6,
     CHR 0x89, CHR 0xA7, CHR 0xE8, CHR 0xA1, CHR 0x8C] @ '' JavaScript''"

section \<open>HeaderManager\<close>

text \<open>
  A \<^verbatim>\<open>Record<string, string>\<close> is a finite map from header names to values; the
  manager's \<^verbatim>\<open>domainHeaders\<close> maps a normalised domain to such a record.
\<close>

type_synonym header_map = "string \<rightharpoonup> string"

type_synonym HeaderManager = "string \<rightharpoonup> header_map"

definition normalizeDomain :: "string \<Rightarrow> string" where
  "normalizeDomain domain =
     (let normalized =
            (if startsWith domain ''http://'' then drop 7 domain
             else if startsWith domain ''https://'' then drop 8 domain
             else domain);
          normalized = takeWhile (\<lambda>c. c \<noteq> CHR ''/'') normalized;
          normalized = takeWhile (\<lambda>c. c \<noteq> CHR '':'') normalized
      in toLowerCase normalized)"

definition setHeaders :: "HeaderManager \<Rightarrow> string \<Rightarrow> header_map \<Rightarrow> HeaderManager" where
  "setHeaders domainHeaders domain headers =
     (let normalizedDomain = normalizeDomain domain;
          existingHeaders =
            (case domainHeaders normalizedDomain of Some h \<Rightarrow> h | None \<Rightarrow> Map.empty);
          mergedHeaders = existingHeaders ++ headers
      in domainHeaders(normalizedDomain \<mapsto> mergedHeaders))"

definition getHeaders :: "HeaderManager \<Rightarrow> string \<Rightarrow> header_map" where
  "getHeaders domainHeaders domain =
     (case domainHeaders (normalizeDomain domain) of Some h \<Rightarrow> h | None \<Rightarrow> Map.empty)"

section \<open>Data model\<close>

datatype custom_value = Scalar string | Sequence "string list"

datatype meta_value = MetaText string | CustomData "string \<rightharpoonup> custom_value"

record ScrapedContent =
  url :: string
  title :: string
  content :: string
  html :: string
  links :: "string list"
  images :: "string list"
  metadata :: "string \<rightharpoonup> meta_value"
  timestamp :: string

record ScrapeOptions =
  usePuppeteer :: "bool option"
  headers :: "header_map option"
  timeout :: "nat option"
  waitForSelector :: "string option"
  screenshot :: "bool option"

record ExtractionRule =
  rule_title :: "string option"
  rule_content :: "string option"
  rule_links :: "string option"
  rule_images :: "string option"
  rule_exclude :: "string list option"
  rule_custom :: "(string \<times> string) list option"

record RuleSet =
  rs_name :: string
  rs_rules :: ExtractionRule
  rs_description :: "string option"

text \<open>One entry of the batch result; the fallback entry of a rejected task has no url.\<close>

record batch_entry =
  entry_url :: "string option"
  entry_success :: bool
  entry_content :: "string option"
  entry_error :: "string option"

section \<open>The external world\<close>

text \<open>
  The libraries are parameters of the model. A thrown \<^verbatim>\<open>Error\<close> is its message, so a
  call that can throw returns \<open>string + 'a\<close> (\<open>Inl\<close> the message) or, when it returns
  nothing, \<open>string option\<close> (\<open>Some\<close> the message).

  Cheerio: \<open>'d\<close> is the mutable document behind \<^verbatim>\<open>$\<close>, \<open>'n\<close> an element of it.
  \<open>ch_select d s\<close> is \<^verbatim>\<open>$(s)\<close> for a well-formed selector, the matched elements in
  document order; \<open>ch_error s\<close> is the message of the error that \<^verbatim>\<open>$(s)\<close> throws
  for a malformed one; \<open>ch_find d ns s\<close> is \<^verbatim>\<open>ns.find(s)\<close>; \<open>ch_remove d ns\<close> is the
  document after \<^verbatim>\<open>ns.remove()\<close>; \<open>ch_text d ns\<close> is \<^verbatim>\<open>ns.text()\<close> and
  \<open>ch_attr d n a\<close> is \<^verbatim>\<open>$(n).attr(a)\<close>.
\<close>

record ('d, 'n) cheerio =
  ch_load :: "string \<Rightarrow> 'd"
  ch_select :: "'d \<Rightarrow> string \<Rightarrow> 'n list"
  ch_error :: "string \<Rightarrow> string option"
  ch_find :: "'d \<Rightarrow> 'n list \<Rightarrow> string \<Rightarrow> 'n list"
  ch_remove :: "'d \<Rightarrow> 'n list \<Rightarrow> 'd"
  ch_text :: "'d \<Rightarrow> 'n list \<Rightarrow> string"
  ch_attr :: "'d \<Rightarrow> 'n \<Rightarrow> string \<Rightarrow> string option"

text \<open>The calls on a puppeteer page that the renderer awaits.\<close>

datatype page_call =
    SetViewport nat nat
  | SetExtraHTTPHeaders header_map
  | SetUserAgent string
  | Goto string nat
  | WaitForSelector string nat
  | PageContent
  | Screenshot

text \<open>
  The rest of the world. The first argument of the network and browser functions is the
  scraper's \<open>tick\<close>, the number of fetches and renderings started before: the same call can
  fail now and succeed later.
  \<^item> \<open>new_URL ref base\<close> is \<^verbatim>\<open>new URL(ref, base).href\<close>, \<open>None\<close> when the
    constructor throws; \<open>url_hostname u\<close> is \<^verbatim>\<open>new URL(u).hostname\<close>.
  \<^item> \<open>axios_get t u hs ms\<close> is the body of the response as a string (an object is
    stringified), or the message of the error of \<^verbatim>\<open>axios.get\<close>.
  \<^item> \<open>launch_probe\<close> is the temporary \<^verbatim>\<open>puppeteer.launch\<close> of the browser manager:
    the \<^verbatim>\<open>spawnfile\<close> of its process, or the message of its error; \<open>launch\<close> is the
    launch of the shared browser at an executable path; \<open>newPage\<close> and \<open>page_call\<close>
    are the calls on the browser and on the page, \<open>page_html\<close> the value of
    \<^verbatim>\<open>page.content()\<close>. Closing a page or a browser completes.
  \<^item> \<open>render\<close> stands for the four formatters of the export manager and
    \<open>json_stringify\<close> for \<^verbatim>\<open>JSON.stringify(results, null, 2)\<close>.
\<close>

record ('d, 'n) env =
  cheerio :: "('d, 'n) cheerio"
  new_URL :: "string \<Rightarrow> string \<Rightarrow> string option"
  url_hostname :: "string \<Rightarrow> string + string"
  axios_get :: "nat \<Rightarrow> string \<Rightarrow> header_map \<Rightarrow> nat \<Rightarrow> string + string"
  now :: "nat \<Rightarrow> string"
  platform_win32 :: bool
  localAppData :: string
  fs_existsSync :: "string \<Rightarrow> bool"
  launch_probe :: "nat \<Rightarrow> string + string option"
  launch :: "nat \<Rightarrow> string \<Rightarrow> string option"
  newPage :: "nat \<Rightarrow> string option"
  page_call :: "nat \<Rightarrow> page_call \<Rightarrow> string option"
  page_html :: "nat \<Rightarrow> string \<Rightarrow> header_map \<Rightarrow> string"
  render :: "string \<Rightarrow> ScrapedContent \<Rightarrow> string + string"
  json_stringify :: "batch_entry list \<Rightarrow> string"

text \<open>Sequencing of calls that can throw.\<close>

definition bindE :: "'e + 'a \<Rightarrow> ('a \<Rightarrow> 'e + 'b) \<Rightarrow> 'e + 'b" where
  "bindE r f = (case r of Inl e \<Rightarrow> Inl e | Inr v \<Rightarrow> f v)"

definition thenE :: "'e option \<Rightarrow> 'e + 'b \<Rightarrow> 'e + 'b" where
  "thenE r k = (case r of Some e \<Rightarrow> Inl e | None \<Rightarrow> k)"

text \<open>\<^verbatim>\<open>$(selector)\<close> for a selector of the caller: a malformed one throws.\<close>

definition query :: "('d, 'n) cheerio \<Rightarrow> 'd \<Rightarrow> string \<Rightarrow> string + 'n list" where
  "query ch d selector =
     (case ch_error ch selector of Some e \<Rightarrow> Inl e | None \<Rightarrow> Inr (ch_select ch d selector))"

section \<open>WebScraper: the extractor\<close>

definition contentSelectors :: "string list" where
  "contentSelectors =
     [''main'', ''article'', ''.content'', ''.post-content'', ''.entry-content'', ''#content'',
      ''.main-content'', ''body'']"

text \<open>
  The loop over \<open>contentSelectors\<close>: the noise below a matched container is removed from
  the document, and the loop stops at the first text of more than 100 characters.
\<close>

fun contentLoop ::
  "('d, 'n) cheerio \<Rightarrow> string list \<Rightarrow> 'd \<Rightarrow> string \<Rightarrow> 'd \<times> string" where
  "contentLoop ch [] d text = (d, text)"
| "contentLoop ch (selector # rest) d text =
     (let element = ch_select ch d selector in
      if length element > 0 then
        (let d' = ch_remove ch d
                    (ch_find ch d element
                       ''script, style, nav, header, footer, aside, .actions, .buttons'');
             text' = trim (ch_text ch d' element)
         in if length text' > 100 then (d', text') else contentLoop ch rest d' text')
      else contentLoop ch rest d text)"

text \<open>
  The two \<^verbatim>\<open>each\<close> loops over links and images: an element without the attribute or
  with an empty one is skipped, and so is a reference on which \<^verbatim>\<open>new URL\<close> throws
  (the \<^verbatim>\<open>catch\<close> is empty).
\<close>

fun resolveEach ::
  "('d, 'n) env \<Rightarrow> 'd \<Rightarrow> string \<Rightarrow> string \<Rightarrow> 'n list \<Rightarrow> string list" where
  "resolveEach env d a base [] = []"
| "resolveEach env d a base (element # rest) =
     (case given (ch_attr (cheerio env) d element a) of
        None \<Rightarrow> resolveEach env d a base rest
      | Some ref \<Rightarrow>
          (case new_URL env ref base of
             None \<Rightarrow> resolveEach env d a base rest
           | Some u \<Rightarrow> u # resolveEach env d a base rest))"

text \<open>The \<^verbatim>\<open>each\<close> loop over the meta elements.\<close>

fun collectMeta ::
  "('d, 'n) cheerio \<Rightarrow> 'd \<Rightarrow> 'n list \<Rightarrow> (string \<rightharpoonup> meta_value) \<Rightarrow> (string \<rightharpoonup> meta_value)" where
  "collectMeta ch d [] m = m"
| "collectMeta ch d (element # rest) m =
     (let name = (case given (ch_attr ch d element ''name'') of
                    Some n \<Rightarrow> Some n
                  | None \<Rightarrow> given (ch_attr ch d element ''property''));
          metaContent = given (ch_attr ch d element ''content'')
      in case (name, metaContent) of
           (Some n, Some c) \<Rightarrow> collectMeta ch d rest (m(n \<mapsto> MetaText c))
         | _ \<Rightarrow> collectMeta ch d rest m)"

text \<open>
  \<^verbatim>\<open>extractContent($, url, html)\<close>; \<open>ts\<close> is the tick at which the clock is read for
  the timestamp. The title is read before the loop changes the document, the links, images
  and meta elements after it.
\<close>

definition extractContent ::
  "('d, 'n) env \<Rightarrow> nat \<Rightarrow> 'd \<Rightarrow> string \<Rightarrow> string \<Rightarrow> ScrapedContent" where
  "extractContent env ts d0 u h =
     (let ch = cheerio env;
          t1 = trim (ch_text ch d0 (ch_select ch d0 ''title''));
          t2 = trim (ch_text ch d0 (take 1 (ch_select ch d0 ''h1'')));
          title' = (if t1 \<noteq> [] then t1 else if t2 \<noteq> [] then t2 else noTitle);
          (d1, text1) = contentLoop ch contentSelectors d0 [];
          (d2, text2) =
            (if text1 = [] then
               (let d' = ch_remove ch d1
                           (ch_select ch d1 ''script, style, nav, header, footer, aside'')
                in (d', trim (ch_text ch d' (ch_select ch d' ''body''))))
             else (d1, text1));
          links' = resolveEach env d2 ''href'' u (ch_select ch d2 ''a[href]'');
          images' = resolveEach env d2 ''src'' u (ch_select ch d2 ''img[src]'');
          metadata' = collectMeta ch d2 (ch_select ch d2 ''meta'') Map.empty
      in \<lparr> url = u, title = title', content = cleanText text2, html = h,
           links = dedupe links', images = dedupe images', metadata = metadata',
           timestamp = now env ts \<rparr>)"

section \<open>WebScraper: fetching and rendering\<close>

text \<open>
  The state of one \<^verbatim>\<open>WebScraper\<close> and of the browsers it drives: \<open>browser\<close> is
  \<^verbatim>\<open>this.browser\<close> (a session is named by its number), \<open>executablePath\<close> the static
  cache of the browser manager, \<open>sessions\<close> the number of shared sessions launched so far,
  \<open>live\<close> those launched and not closed, \<open>probes\<close> the number of temporary browsers that
  the browser manager launched (each is closed before the manager returns), \<open>pages\<close> the
  number of pages opened so far, \<open>open_pages\<close> those opened and not closed, and \<open>tick\<close>
  the number of fetches and renderings started.
\<close>

record WebScraper =
  browser :: "nat option"
  executablePath :: "string option"
  sessions :: nat
  live :: "nat list"
  probes :: nat
  pages :: nat
  open_pages :: "nat list"
  tick :: nat

definition newWebScraper :: WebScraper where
  "newWebScraper =
     \<lparr> browser = None, executablePath = None, sessions = 0, live = [], probes = 0,
       pages = 0, open_pages = [], tick = 0 \<rparr>"

definition jsRequiredKeywords :: "string list" where
  "jsRequiredKeywords =
     [keywordAllowJS, ''enable JavaScript'', ''requires JavaScript'',
      ''not support a browser that has JavaScript disabled'', ''Please enable JavaScript'']"

definition contentIsJSReliant :: "string \<Rightarrow> bool" where
  "contentIsJSReliant h =
     list_ex (\<lambda>keyword. str_includes (toLowerCase h) (toLowerCase keyword)) jsRequiredKeywords"

definition axiosUserAgent :: string where
  "axiosUserAgent = ''Mozilla/5.0 (Windows NT 10.0; Win64; x64) AppleWebKit/537.36 (KHTML, like Gecko) Chrome/91.0.4472.124 Safari/537.36''"

definition puppeteerUserAgent :: string where
  "puppeteerUserAgent = ''Mozilla/5.0 (Windows NT 10.0; Win64; x64) AppleWebKit/537.36 (KHTML, like Gecko) Chrome/108.0.0.0 Safari/537.36''"

definition scrapeWithAxios ::
  "('d, 'n) env \<Rightarrow> string \<Rightarrow> ScrapeOptions \<Rightarrow> WebScraper \<Rightarrow> (string + ScrapedContent) \<times> WebScraper" where
  "scrapeWithAxios env u options st =
     (let t = tick st;
          st' = st\<lparr>tick := Suc t\<rparr>;
          hs = (case headers options of Some h \<Rightarrow> h | None \<Rightarrow> Map.empty);
          ms = (case timeout options of Some n \<Rightarrow> n | None \<Rightarrow> 15000)
      in case axios_get env t u ([''User-Agent'' \<mapsto> axiosUserAgent] ++ hs) ms of
           Inl e \<Rightarrow> (Inl (axiosFailed @ e), st')
         | Inr htmlContent \<Rightarrow>
             (Inr (extractContent env t (ch_load (cheerio env) htmlContent) u htmlContent), st'))"

definition defaultChromePaths :: "('d, 'n) env \<Rightarrow> string list" where
  "defaultChromePaths env =
     (if platform_win32 env then
        [join [CHR 0x5C] [''C:'', ''Program Files'', ''Google'', ''Chrome'', ''Application'', ''chrome.exe''],
         join [CHR 0x5C] [''C:'', ''Program Files (x86)'', ''Google'', ''Chrome'', ''Application'', ''chrome.exe''],
         join [CHR 0x5C] [localAppData env, ''Google'', ''Chrome'', ''Application'', ''chrome.exe'']]
      else [''/usr/bin/google-chrome'', ''/usr/bin/google-chrome-stable''])"

text \<open>
  In \<open>defaultChromePaths\<close> the components of a Windows path are joined by the backslash
  (character 0x5C).

  \<^verbatim>\<open>BrowserManager.ensureBrowserIsReady\<close> at tick \<open>t\<close>: the cached path, else the first
  installed Chrome, else the path of a temporary browser, which is closed in the
  \<^verbatim>\<open>finally\<close>. Every error of the last step is wrapped by the \<^verbatim>\<open>catch\<close>.
\<close>

definition ensureBrowserIsReady ::
  "('d, 'n) env \<Rightarrow> nat \<Rightarrow> WebScraper \<Rightarrow> (string + string) \<times> WebScraper" where
  "ensureBrowserIsReady env t st =
     (case given (executablePath st) of
        Some p \<Rightarrow> (Inr p, st)
      | None \<Rightarrow>
          (case find (fs_existsSync env) (defaultChromePaths env) of
             Some p \<Rightarrow> (Inr p, st\<lparr>executablePath := Some p\<rparr>)
           | None \<Rightarrow>
               (case launch_probe env t of
                  Inl e \<Rightarrow> (Inl (browserInitFailed @ e), st)
                | Inr spawnfile \<Rightarrow>
                    (let st' = st\<lparr>probes := Suc (probes st)\<rparr> in
                     case given spawnfile of
                       Some execPath \<Rightarrow>
                         (if fs_existsSync env execPath
                          then (Inr execPath, st'\<lparr>executablePath := Some execPath\<rparr>)
                          else (Inl (browserInitFailed @ noBrowserPath), st'))
                     | None \<Rightarrow> (Inl (browserInitFailed @ noBrowserPath), st')))))"

text \<open>The calls on the page between \<^verbatim>\<open>newPage\<close> and the extraction, in the order of the source.\<close>

definition pageSession ::
  "('d, 'n) env \<Rightarrow> nat \<Rightarrow> string \<Rightarrow> ScrapeOptions \<Rightarrow> string + string" where
  "pageSession env t u options =
     (let hs = (case headers options of Some h \<Rightarrow> h | None \<Rightarrow> Map.empty);
          ms = (case timeout options of Some n \<Rightarrow> n | None \<Rightarrow> 60000);
          shot = (case screenshot options of Some b \<Rightarrow> b | None \<Rightarrow> False)
      in thenE (page_call env t (SetViewport 1280 800))
        (thenE (if hs \<noteq> Map.empty then page_call env t (SetExtraHTTPHeaders hs) else None)
        (thenE (page_call env t (SetUserAgent puppeteerUserAgent))
        (thenE (page_call env t (Goto u ms))
        (thenE (case given (waitForSelector options) of
                  Some selector \<Rightarrow> page_call env t (WaitForSelector selector 15000)
                | None \<Rightarrow> None)
        (thenE (page_call env t PageContent)
        (thenE (if shot then page_call env t Screenshot else None)
           (Inr (page_html env t u hs)))))))))"

text \<open>
  \<^verbatim>\<open>scrapeWithPuppeteer\<close>: the shared browser is launched when \<^verbatim>\<open>this.browser\<close> is
  null; every error of the \<^verbatim>\<open>try\<close> block is rethrown with the prefix; the
  \<^verbatim>\<open>finally\<close> closes the page when one was opened.
\<close>

definition scrapeWithPuppeteer ::
  "('d, 'n) env \<Rightarrow> string \<Rightarrow> ScrapeOptions \<Rightarrow> WebScraper \<Rightarrow> (string + ScrapedContent) \<times> WebScraper" where
  "scrapeWithPuppeteer env u options st =
     (let t = tick st;
          st0 = st\<lparr>tick := Suc t\<rparr>;
          (started, st1) =
            (case browser st0 of
               Some b \<Rightarrow> (Inr b, st0)
             | None \<Rightarrow>
                 (case ensureBrowserIsReady env t st0 of
                    (Inl e, s) \<Rightarrow> (Inl e, s)
                  | (Inr path, s) \<Rightarrow>
                      (case launch env t path of
                         Some e \<Rightarrow> (Inl e, s)
                       | None \<Rightarrow>
                           (Inr (sessions s),
                            s\<lparr>browser := Some (sessions s), sessions := Suc (sessions s),
                              live := sessions s # live s\<rparr>))))
      in case started of
           Inl e \<Rightarrow> (Inl (puppeteerFailed @ e), st1)
         | Inr b \<Rightarrow>
             (case newPage env t of
                Some e \<Rightarrow> (Inl (puppeteerFailed @ e), st1)
              | None \<Rightarrow>
                  (let page = pages st1;
                       st2 = st1\<lparr>pages := Suc page, open_pages := page # open_pages st1\<rparr>;
                       outcome = pageSession env t u options;
                       st3 = st2\<lparr>open_pages := removeAll page (open_pages st2)\<rparr>
                   in case outcome of
                        Inl e \<Rightarrow> (Inl (puppeteerFailed @ e), st3)
                      | Inr h \<Rightarrow>
                          (Inr (extractContent env t (ch_load (cheerio env) h) u h), st3))))"

text \<open>
  \<^verbatim>\<open>scrape\<close>. In the \<^verbatim>\<open>catch\<close> the message of the failed static fetch goes to
  \<^verbatim>\<open>console.error\<close> and nowhere else.
\<close>

definition scrape ::
  "('d, 'n) env \<Rightarrow> string \<Rightarrow> ScrapeOptions \<Rightarrow> WebScraper \<Rightarrow> (string + ScrapedContent) \<times> WebScraper" where
  "scrape env u options st =
     (if startsWith u ''data:'' then scrapeWithPuppeteer env u options st
      else if (case usePuppeteer options of Some b \<Rightarrow> b | None \<Rightarrow> False)
      then scrapeWithPuppeteer env u options st
      else
        (case scrapeWithAxios env u options st of
           (Inr staticContent, st1) \<Rightarrow>
             (if contentIsJSReliant (html staticContent)
              then scrapeWithPuppeteer env u options st1
              else (Inr staticContent, st1))
         | (Inl e, st1) \<Rightarrow> scrapeWithPuppeteer env u options st1))"


section \<open>RuleEngine\<close>

text \<open>The \<^verbatim>\<open>forEach\<close> over the exclude selectors.\<close>

fun applyExclude :: "('d, 'n) cheerio \<Rightarrow> 'd \<Rightarrow> string list \<Rightarrow> string + 'd" where
  "applyExclude ch d [] = Inr d"
| "applyExclude ch d (selector # rest) =
     (case query ch d selector of
        Inl e \<Rightarrow> Inl e
      | Inr ns \<Rightarrow> applyExclude ch (ch_remove ch d ns) rest)"

text \<open>The \<^verbatim>\<open>forEach\<close> over the entries of \<^verbatim>\<open>rules.custom\<close>.\<close>

fun applyCustom ::
  "('d, 'n) cheerio \<Rightarrow> 'd \<Rightarrow> (string \<times> string) list \<Rightarrow> (string \<rightharpoonup> custom_value)
     \<Rightarrow> string + (string \<rightharpoonup> custom_value)" where
  "applyCustom ch d [] customData = Inr customData"
| "applyCustom ch d ((key, selector) # rest) customData =
     (case query ch d selector of
        Inl e \<Rightarrow> Inl e
      | Inr elements \<Rightarrow>
          applyCustom ch d rest
            (if length elements = 1
             then customData(key \<mapsto> Scalar (trim (ch_text ch d elements)))
             else if length elements > 1
             then customData(key \<mapsto> Sequence (map (\<lambda>el. trim (ch_text ch d [el])) elements))
             else customData))"

text \<open>Steps 4 and 5: the links or images of the record, replaced when the selector is given.\<close>

definition ruleUrls ::
  "('d, 'n) env \<Rightarrow> 'd \<Rightarrow> string option \<Rightarrow> string \<Rightarrow> string \<Rightarrow> string list \<Rightarrow> string + string list" where
  "ruleUrls env d selector a base old =
     (case given selector of
        None \<Rightarrow> Inr old
      | Some sel \<Rightarrow> bindE (query (cheerio env) d sel) (\<lambda>ns. Inr (resolveEach env d a base ns)))"

text \<open>Step 1: the stored markup is parsed again and the excluded elements are removed.\<close>

definition excludedDocument ::
  "('d, 'n) cheerio \<Rightarrow> string \<Rightarrow> ExtractionRule \<Rightarrow> string + 'd" where
  "excludedDocument ch h rules =
     (case rule_exclude rules of
        Some ex \<Rightarrow> if length ex > 0 then applyExclude ch (ch_load ch h) ex else Inr (ch_load ch h)
      | None \<Rightarrow> Inr (ch_load ch h))"

definition applyRules ::
  "('d, 'n) env \<Rightarrow> (string \<rightharpoonup> RuleSet) \<Rightarrow> string \<Rightarrow> ScrapedContent \<Rightarrow> string + ScrapedContent" where
  "applyRules env ruleSets ruleSetName c =
     (case ruleSets ruleSetName of
        None \<Rightarrow> Inl (ruleSetMissing1 @ ruleSetName @ ruleSetMissing2)
      | Some ruleSet \<Rightarrow>
          (let ch = cheerio env;
               rules = rs_rules ruleSet
           in bindE (excludedDocument ch (html c) rules)
             (\<lambda>d.
              bindE (case given (rule_title rules) of
                       None \<Rightarrow> Inr (title c)
                     | Some sel \<Rightarrow>
                         bindE (query ch d sel)
                           (\<lambda>ns. Inr (if length (take 1 ns) > 0 then trim (ch_text ch d (take 1 ns))
                                      else title c)))
             (\<lambda>title'.
              bindE (case given (rule_content rules) of
                       None \<Rightarrow> Inr (content c)
                     | Some sel \<Rightarrow>
                         bindE (query ch d sel)
                           (\<lambda>ns. Inr (if length ns > 0
                                      then join [CHR 0x0A, CHR 0x0A] (map (\<lambda>el. ch_text ch d [el]) ns)
                                      else content c)))
             (\<lambda>extractedContent.
              bindE (ruleUrls env d (rule_links rules) ''href'' (url c) (links c))
             (\<lambda>links'.
              bindE (ruleUrls env d (rule_images rules) ''src'' (url c) (images c))
             (\<lambda>images'.
              bindE (case rule_custom rules of
                       Some custom \<Rightarrow> applyCustom ch d custom Map.empty
                     | None \<Rightarrow> Inr Map.empty)
             (\<lambda>customData.
              Inr (c\<lparr> title := title', content := cleanText extractedContent,
                      links := dedupe links', images := dedupe images',
                      metadata := (metadata c)(''customData'' \<mapsto> CustomData customData,
                                               ''appliedRuleSet'' \<mapsto> MetaText ruleSetName) \<rparr>)))))))))"

section \<open>WebScraperMCPServer\<close>

record Server =
  scraper :: WebScraper
  ruleSets :: "string \<rightharpoonup> RuleSet"
  headerManager :: HeaderManager














section \<open>A small world for concrete runs\<close>

text \<open>
  A document is the list of its elements in document order; an element is its tag, the
  value of its \<^verbatim>\<open>href\<close> or \<^verbatim>\<open>src\<close> attribute and its text. The title is in the
  head, every other element but the body is a child of the body, and the text of the body
  is the text of its children. Three pages are known:
  \<^item> \<open>pageLinks\<close>: a title, three anchors (two with the same reference, one that does not
    resolve) and an image;
  \<^item> \<open>pageScript\<close>: a paragraph that asks for JavaScript, in capitals;
  \<^item> \<open>pageNav\<close>: a title and a \<^verbatim>\<open>nav\<close> followed by an \<^verbatim>\<open>h1\<close>.
  The selectors are type selectors, \<^verbatim>\<open>a[href]\<close>, \<^verbatim>\<open>img[src]\<close>, the two lists of
  noise tags of the extractor, and \<^verbatim>\<open>h1:first-child\<close>, which matches an \<^verbatim>\<open>h1\<close> that is
  the first child of the body.
\<close>

type_synonym demo_node = "string \<times> string \<times> string"

definition pageLinks :: string where
  "pageLinks = ''<title>T</title><body><a href=/x>L</a><a href=/x>M</a><a href=::bad>B</a><img src=/i.png></body>''"

definition pageScript :: string where
  "pageScript = ''<body><p>Please Enable JAVASCRIPT</p></body>''"

definition pageNav :: string where
  "pageNav = ''<title>T</title><body><nav>N</nav><h1>X</h1></body>''"

definition demo_load :: "string \<Rightarrow> demo_node list" where
  "demo_load h =
     (if h = pageLinks then
        [(''title'', [], ''T''), (''body'', [], []), (''a'', ''/x'', ''L''), (''a'', ''/x'', ''M''),
         (''a'', ''::bad'', ''B''), (''img'', ''/i.png'', [])]
      else if h = pageScript then [(''body'', [], []), (''p'', [], ''Please Enable JAVASCRIPT'')]
      else if h = pageNav then
        [(''title'', [], ''T''), (''body'', [], []), (''nav'', [], ''N''), (''h1'', [], ''X'')]
      else [])"

definition demo_children :: "demo_node list \<Rightarrow> demo_node list" where
  "demo_children d = filter (\<lambda>n. fst n \<noteq> ''title'' \<and> fst n \<noteq> ''body'') d"

definition demo_tags :: "string \<Rightarrow> string list" where
  "demo_tags s =
     (if s = ''script, style, nav, header, footer, aside, .actions, .buttons''
         \<or> s = ''script, style, nav, header, footer, aside''
      then [''script'', ''style'', ''nav'', ''header'', ''footer'', ''aside'']
      else if s = ''a[href]'' then [''a'']
      else if s = ''img[src]'' then [''img'']
      else [s])"

definition demo_select :: "demo_node list \<Rightarrow> string \<Rightarrow> demo_node list" where
  "demo_select d s =
     (if s = ''h1:first-child'' then
        (case demo_children d of
           [] \<Rightarrow> []
         | n # _ \<Rightarrow> if fst n = ''h1'' then [n] else [])
      else filter (\<lambda>n. fst n \<in> set (demo_tags s)) d)"

definition demo_cheerio :: "(demo_node list, demo_node) cheerio" where
  "demo_cheerio =
     \<lparr> ch_load = demo_load,
       ch_select = demo_select,
       ch_error = (\<lambda>s. if s = ''!'' then Some ''Unmatched selector: !'' else None),
       ch_find = (\<lambda>d ns s.
          if ''body'' \<in> set (map fst ns)
          then filter (\<lambda>n. fst n \<in> set (demo_tags s)) (demo_children d) else []),
       ch_remove = (\<lambda>d ns. filter (\<lambda>n. n \<notin> set ns) d),
       ch_text = (\<lambda>d ns.
          concat (map (\<lambda>n. if fst n = ''body'' then concat (map (\<lambda>k. snd (snd k)) (demo_children d))
                            else snd (snd n)) ns)),
       ch_attr = (\<lambda>d n a.
          if (a = ''href'' \<and> fst n = ''a'') \<or> (a = ''src'' \<and> fst n = ''img'')
          then Some (fst (snd n)) else None) \<rparr>"

text \<open>
  The network answers at two addresses and times out elsewhere; Chrome is installed; the
  browser starts, and navigation fails at the address \<open>https://down.test/\<close>.
\<close>

definition demo_env :: "(demo_node list, demo_node) env" where
  "demo_env =
     \<lparr> cheerio = demo_cheerio,
       new_URL = (\<lambda>ref base. if ref = ''::bad'' then None else Some (''https://ok.test'' @ ref)),
       url_hostname = (\<lambda>u. if startsWith u ''https://''
                            then Inr (takeWhile (\<lambda>c. c \<noteq> CHR ''/'') (drop 8 u))
                            else Inl ''Invalid URL''),
       axios_get = (\<lambda>t u hs ms.
          if u = ''https://ok.test/'' then Inr pageLinks
          else if u = ''https://js.test/'' then Inr pageScript
          else Inl ''timeout of 15000ms exceeded''),
       now = (\<lambda>t. ''2025-01-01T00:00:00.000Z''),
       platform_win32 = False,
       localAppData = [],
       fs_existsSync = (\<lambda>p. p = ''/usr/bin/google-chrome''),
       launch_probe = (\<lambda>t. Inl ''Could not find Chrome''),
       launch = (\<lambda>t p. None),
       newPage = (\<lambda>t. None),
       page_call = (\<lambda>t c. case c of
                              Goto u ms \<Rightarrow> if u = ''https://down.test/''
                                           then Some ''net::ERR_NAME_NOT_RESOLVED'' else None
                            | _ \<Rightarrow> None),
       page_html = (\<lambda>t u hs. pageNav),
       render = (\<lambda>format c. Inr (title c)),
       json_stringify = (\<lambda>entries. concat (map (\<lambda>e. if entry_success e then ''+'' else ''-'') entries)) \<rparr>"

definition demo_options :: ScrapeOptions where
  "demo_options =
     \<lparr> usePuppeteer = None, headers = None, timeout = None, waitForSelector = None,
       screenshot = None \<rparr>"

text \<open>
  A registry with the one rule set \<open>demo\<close>, a server that starts with one stored header for
  the host \<open>ok.test\<close>, the arguments of a batch and of a single request, and a world in which
  no selector matches anything and no reference resolves.
\<close>

definition demo_rules ::
  "string option \<Rightarrow> string option \<Rightarrow> string option \<Rightarrow> string list option \<Rightarrow> (string \<rightharpoonup> RuleSet)" where
  "demo_rules t c l ex =
     [''demo'' \<mapsto>
        \<lparr> rs_name = ''demo'',
          rs_rules = \<lparr> rule_title = t, rule_content = c, rule_links = l, rule_images = None,
                       rule_exclude = ex, rule_custom = None \<rparr>,
          rs_description = None \<rparr>]"




definition blank_env :: "(demo_node list, demo_node) env" where
  "blank_env =
     demo_env\<lparr> cheerio := demo_cheerio\<lparr> ch_select := (\<lambda>d s. []), ch_text := (\<lambda>d ns. []) \<rparr>,
               new_URL := (\<lambda>ref base. None) \<rparr>"

section \<open>Predicates of the specification\<close>

text \<open>
  The phrase occurs in the text when letter case is ignored: some part of the text equals the
  phrase once both are put in lower case.
\<close>

definition containsIgnoringCase :: "string \<Rightarrow> string \<Rightarrow> bool" where
  "containsIgnoringCase hay phrase =
     (\<exists>p m s. hay = p @ m @ s \<and> map lowerChar m = map lowerChar phrase)"

text \<open>
  A list of addresses holds only resolved references, each once: it has no duplicates, and
  every entry is what \<^verbatim>\<open>new URL\<close> made of a non-empty reference and the base address.
\<close>

definition resolvedOnly :: "('d, 'n) env \<Rightarrow> string \<Rightarrow> string list \<Rightarrow> bool" where
  "resolvedOnly env base xs =
     (distinct xs \<and> (\<forall>x \<in> set xs. \<exists>ref. ref \<noteq> [] \<and> new_URL env ref base = Some x))"



text \<open>
  A text in which every white space character is a single space between two other
  characters or at an end.
\<close>

fun tidy :: "string \<Rightarrow> bool" where
  "tidy [] = True"
| "tidy (c # cs) =
     ((isSpace c \<longrightarrow> c = CHR 0x20 \<and> (case cs of [] \<Rightarrow> True | d # _ \<Rightarrow> \<not> isSpace d)) \<and> tidy cs)"

section \<open>Properties of the text primitives\<close>

lemma replaceBlankLines_id: "CHR 0x0A \<notin> set s \<Longrightarrow> replaceBlankLines s = s"
  by (induction s) auto

lemma collapse_no_newline: "CHR 0x0A \<notin> set (collapseWhitespace s)"
  by (induction s rule: collapseWhitespace.induct) (auto simp: isSpace_def)

lemma cleanText_eq: "cleanText s = trim (collapseWhitespace s)"
  by (simp add: cleanText_def replaceBlankLines_id collapse_no_newline)

lemma collapse_head: "\<not> isSpace c \<Longrightarrow> collapseWhitespace (c # cs) = c # collapseWhitespace cs"
  by simp

lemma tidy_collapse: "tidy (collapseWhitespace s)"
proof (induction s rule: collapseWhitespace.induct)
  case 1
  show ?case by simp
next
  case (2 c cs)
  show ?case
  proof (cases "isSpace c")
    case True
    let ?r = "dropWhile isSpace cs"
    have t: "tidy (collapseWhitespace ?r)" using 2 True by simp
    have h: "case collapseWhitespace ?r of [] \<Rightarrow> True | d # _ \<Rightarrow> \<not> isSpace d"
    proof (cases ?r)
      case Nil
      show ?thesis unfolding Nil by simp
    next
      case (Cons d ds)
      then have "\<not> isSpace d" by (metis hd_dropWhile list.sel(1) list.distinct(1))
      then show ?thesis using Cons by simp
    qed
    show ?thesis using True t h by simp
  next
    case False
    then show ?thesis using 2 by simp
  qed
qed

lemma collapse_tidy_id: "tidy xs \<Longrightarrow> collapseWhitespace xs = xs"
proof (induction xs)
  case Nil
  show ?case by simp
next
  case (Cons c cs)
  show ?case
  proof (cases "isSpace c")
    case True
    with Cons.prems have c: "c = CHR 0x20" and h: "case cs of [] \<Rightarrow> True | d # _ \<Rightarrow> \<not> isSpace d"
      and t: "tidy cs" by simp_all
    from h have "dropWhile isSpace cs = cs" by (cases cs) simp_all
    then show ?thesis using True c t Cons.IH by simp
  next
    case False
    then show ?thesis using Cons by simp
  qed
qed

lemma tidy_suffix: "tidy (xs @ ys) \<Longrightarrow> tidy ys"
  by (induction xs) auto

lemma tidy_prefix: "tidy (xs @ ys) \<Longrightarrow> tidy xs"
proof (induction xs)
  case Nil
  show ?case by simp
next
  case (Cons c cs)
  then have t: "tidy cs" by simp
  show ?case
  proof (cases cs)
    case Nil
    then show ?thesis using Cons.prems by simp
  next
    case (Cons d ds)
    then show ?thesis using Cons.prems t by simp
  qed
qed

lemma strip_right_prefix: "xs = rev (dropWhile P (rev xs)) @ rev (takeWhile P (rev xs))"
  by (metis rev_append rev_rev_ident takeWhile_dropWhile_id)

lemma tidy_trim: "tidy xs \<Longrightarrow> tidy (trim xs)"
proof -
  assume a: "tidy xs"
  have "tidy (dropWhile isSpace xs)"
    by (metis a takeWhile_dropWhile_id tidy_suffix)
  then show ?thesis unfolding trim_def
    by (metis strip_right_prefix tidy_prefix)
qed

lemma trim_idem: "trim (trim s) = trim s"
proof -
  let ?u = "dropWhile isSpace s"
  let ?t = "rev (dropWhile isSpace (rev ?u))"
  have pre: "?u = ?t @ rev (takeWhile isSpace (rev ?u))" by (rule strip_right_prefix)
  have "dropWhile isSpace ?t = ?t"
  proof (cases ?t)
    case Nil
    show ?thesis unfolding Nil by simp
  next
    case (Cons a as)
    then have "hd ?u = a" using pre by (metis hd_append2 list.sel(1) list.distinct(1))
    moreover have "?u \<noteq> []"
    proof
      assume e: "?u = []"
      have "?t = []" unfolding e by simp
      with Cons show False by simp
    qed
    ultimately have "\<not> isSpace a" by (metis hd_dropWhile)
    then show ?thesis using Cons by simp
  qed
  then show ?thesis by (simp add: trim_def)
qed

lemma cleanText_idem: "cleanText (cleanText s) = cleanText s"
proof -
  have "tidy (trim (collapseWhitespace s))" by (simp add: tidy_collapse tidy_trim)
  then have "collapseWhitespace (trim (collapseWhitespace s)) = trim (collapseWhitespace s)"
    by (rule collapse_tidy_id)
  then show ?thesis by (simp add: cleanText_eq trim_idem)
qed

lemma dedupe_distinct: "distinct (dedupe xs)"
  by (simp add: dedupe_def)

lemma set_dedupe: "set (dedupe xs) = set xs"
  by (simp add: dedupe_def)

lemma dedupe_id: "distinct xs \<Longrightarrow> dedupe xs = xs"
  by (simp add: dedupe_def distinct_remdups_id)

lemma bindE_Inr: "bindE (Inr v) f = f v"
  by (simp add: bindE_def)

lemmas demo_defs = demo_env_def demo_cheerio_def demo_options_def newWebScraper_def
  demo_load_def demo_select_def demo_children_def demo_tags_def pageLinks_def pageScript_def
  pageNav_def

section \<open>HeaderManager: merging\<close>

text \<open>
  C10: \<^verbatim>\<open>setHeaders(domain, h)\<close> merges \<open>h\<close> into the headers stored for the normalised
  domain. Afterwards \<^verbatim>\<open>getHeaders(domain)\<close> is the old mapping overridden by \<open>h\<close>: a key
  of \<open>h\<close> has the value of \<open>h\<close>, every other key keeps its value, and no stored key is
  lost.
\<close>

theorem setHeaders_merges:
  "getHeaders (setHeaders hm domain h) domain = getHeaders hm domain ++ h
   \<and> dom (getHeaders hm domain) \<subseteq> dom (getHeaders (setHeaders hm domain h) domain)
   \<and> (\<forall>k. getHeaders (setHeaders hm domain h) domain k =
            (case h k of Some v \<Rightarrow> Some v | None \<Rightarrow> getHeaders hm domain k))"
  by (auto simp: getHeaders_def setHeaders_def Let_def map_add_def split: option.splits)

lemma normalize_example: "normalizeDomain ''https://Example.com:8080/p'' = ''example.com''"
  by code_simp

theorem setHeaders_merges_witness:
  "getHeaders
     (setHeaders [''example.com'' \<mapsto> [''Accept'' \<mapsto> ''text/html'', ''Cookie'' \<mapsto> ''a=1'']]
        ''https://Example.com:8080/p'' [''Cookie'' \<mapsto> ''b=2''])
     ''https://Example.com:8080/p'' ''Accept'' = Some ''text/html''
   \<and> getHeaders
     (setHeaders [''example.com'' \<mapsto> [''Accept'' \<mapsto> ''text/html'', ''Cookie'' \<mapsto> ''a=1'']]
        ''https://Example.com:8080/p'' [''Cookie'' \<mapsto> ''b=2''])
     ''https://Example.com:8080/p'' ''Cookie'' = Some ''b=2''"
  using setHeaders_merges
    [of "[''example.com'' \<mapsto> [''Accept'' \<mapsto> ''text/html'', ''Cookie'' \<mapsto> ''a=1'']]"
        "''https://Example.com:8080/p''" "[''Cookie'' \<mapsto> ''b=2'']"]
  by (simp add: getHeaders_def normalize_example)

section \<open>WebScraper: the strategy\<close>

lemma str_includes_iff: "str_includes hay n \<longleftrightarrow> (\<exists>p s. hay = p @ n @ s)"
proof (induction hay)
  case Nil
  show ?case by auto
next
  case (Cons h hs)
  have a: "take (length n) (h # hs) = n \<longleftrightarrow> (\<exists>s. h # hs = n @ s)"
    by (metis append_eq_conv_conj)
  show ?case
  proof
    assume "str_includes (h # hs) n"
    then consider "take (length n) (h # hs) = n" | "str_includes hs n" by auto
    then show "\<exists>p s. h # hs = p @ n @ s"
    proof cases
      case 1
      then obtain s where "h # hs = n @ s" using a by blast
      then have "h # hs = [] @ n @ s" by simp
      then show ?thesis by blast
    next
      case 2
      then obtain p s where "hs = p @ n @ s" using Cons.IH by blast
      then have "h # hs = (h # p) @ n @ s" by simp
      then show ?thesis by blast
    qed
  next
    assume "\<exists>p s. h # hs = p @ n @ s"
    then obtain p s where e: "h # hs = p @ n @ s" by blast
    show "str_includes (h # hs) n"
    proof (cases p)
      case Nil
      then have "take (length n) (h # hs) = n" using e a by auto
      then show ?thesis by simp
    next
      case (Cons q qs)
      then have "hs = qs @ n @ s" using e by simp
      then have "str_includes hs n" using Cons.IH by blast
      then show ?thesis by simp
    qed
  qed
qed

lemma includes_lower_iff:
  "str_includes (toLowerCase hay) (toLowerCase phrase) \<longleftrightarrow> containsIgnoringCase hay phrase"
proof
  assume "str_includes (toLowerCase hay) (toLowerCase phrase)"
  then obtain p' s' where "map lowerChar hay = p' @ map lowerChar phrase @ s'"
    unfolding str_includes_iff toLowerCase_def by blast
  then obtain us vs where h: "hay = us @ vs" and "map lowerChar vs = map lowerChar phrase @ s'"
    by (metis map_eq_append_conv)
  then obtain m s where v: "vs = m @ s" and m: "map lowerChar m = map lowerChar phrase"
    by (metis map_eq_append_conv)
  from h v have "hay = us @ m @ s" by simp
  with m show "containsIgnoringCase hay phrase"
    unfolding containsIgnoringCase_def by blast
next
  assume "containsIgnoringCase hay phrase"
  then obtain p m s where "hay = p @ m @ s" and "map lowerChar m = map lowerChar phrase"
    unfolding containsIgnoringCase_def by blast
  then have "map lowerChar hay = map lowerChar p @ map lowerChar phrase @ map lowerChar s"
    by simp
  then show "str_includes (toLowerCase hay) (toLowerCase phrase)"
    unfolding str_includes_iff toLowerCase_def by blast
qed

lemma contentIsJSReliant_iff:
  "contentIsJSReliant h \<longleftrightarrow> (\<exists>kw \<in> set jsRequiredKeywords. containsIgnoringCase h kw)"
  by (simp add: contentIsJSReliant_def list_ex_iff includes_lower_iff)

lemma extract_fields:
  "url (extractContent env ts d u h) = u" "html (extractContent env ts d u h) = h"
  "timestamp (extractContent env ts d u h) = now env ts"
  by (simp_all add: extractContent_def Let_def split: prod.splits)

text \<open>
  C3: when the address is a network address, rendering is not forced and the lightweight
  fetch succeeds, the raw markup it fetched is scanned, ignoring letter case, for the phrases
  of the fixed list. When one occurs the result is the result of the render tier, else it is
  the lightweight result.
\<close>

theorem scrape_js_heuristic:
  assumes "\<not> startsWith u ''data:''"
    and "\<not> (case usePuppeteer options of Some b \<Rightarrow> b | None \<Rightarrow> False)"
    and "scrapeWithAxios env u options st = (Inr c, st1)"
  shows "scrape env u options st =
           (if \<exists>kw \<in> set jsRequiredKeywords. containsIgnoringCase (html c) kw
            then scrapeWithPuppeteer env u options st1
            else (Inr c, st1))
         \<and> axios_get env (tick st) u
             ([''User-Agent'' \<mapsto> axiosUserAgent]
                ++ (case headers options of Some h \<Rightarrow> h | None \<Rightarrow> Map.empty))
             (case timeout options of Some n \<Rightarrow> n | None \<Rightarrow> 15000) = Inr (html c)"
proof -
  have a: "scrape env u options st =
           (if contentIsJSReliant (html c) then scrapeWithPuppeteer env u options st1
            else (Inr c, st1))"
    using assms by (simp add: scrape_def)
  have b: "axios_get env (tick st) u
             ([''User-Agent'' \<mapsto> axiosUserAgent]
                ++ (case headers options of Some h \<Rightarrow> h | None \<Rightarrow> Map.empty))
             (case timeout options of Some n \<Rightarrow> n | None \<Rightarrow> 15000) = Inr (html c)"
    using assms(3)
    by (auto simp: scrapeWithAxios_def Let_def extract_fields split: sum.splits)
  show ?thesis using a b by (simp add: contentIsJSReliant_iff)
qed

lemma axios_script:
  "scrapeWithAxios demo_env ''https://js.test/'' demo_options newWebScraper =
     (Inr (extractContent demo_env 0 (demo_load pageScript) ''https://js.test/'' pageScript),
      newWebScraper\<lparr>tick := 1\<rparr>)"
  by (simp add: scrapeWithAxios_def demo_env_def demo_options_def newWebScraper_def demo_cheerio_def)

lemma axios_links:
  "scrapeWithAxios demo_env ''https://ok.test/'' demo_options newWebScraper =
     (Inr (extractContent demo_env 0 (demo_load pageLinks) ''https://ok.test/'' pageLinks),
      newWebScraper\<lparr>tick := 1\<rparr>)"
  by (simp add: scrapeWithAxios_def demo_env_def demo_options_def newWebScraper_def demo_cheerio_def)

lemma script_is_reliant: "contentIsJSReliant pageScript"
  by code_simp

lemma links_not_reliant: "\<not> contentIsJSReliant pageLinks"
  by code_simp

theorem scrape_js_heuristic_witness:
  "scrape demo_env ''https://js.test/'' demo_options newWebScraper
     = scrapeWithPuppeteer demo_env ''https://js.test/'' demo_options (newWebScraper\<lparr>tick := 1\<rparr>)
   \<and> scrape demo_env ''https://ok.test/'' demo_options newWebScraper
     = (Inr (extractContent demo_env 0 (demo_load pageLinks) ''https://ok.test/'' pageLinks),
        newWebScraper\<lparr>tick := 1\<rparr>)"
proof -
  have h1: "\<not> startsWith ''https://js.test/'' ''data:''" "\<not> startsWith ''https://ok.test/'' ''data:''"
    by (simp_all add: startsWith_def)
  have h2: "\<not> (case usePuppeteer demo_options of Some b \<Rightarrow> b | None \<Rightarrow> False)"
    by (simp add: demo_options_def)
  have k: "\<exists>kw \<in> set jsRequiredKeywords. containsIgnoringCase pageScript kw"
    using script_is_reliant by (simp add: contentIsJSReliant_iff)
  have n: "\<not> (\<exists>kw \<in> set jsRequiredKeywords. containsIgnoringCase pageLinks kw)"
    using links_not_reliant by (simp add: contentIsJSReliant_iff)
  show ?thesis
    using scrape_js_heuristic[OF h1(1) h2 axios_script] scrape_js_heuristic[OF h1(2) h2 axios_links]
      k n
    by (simp add: extract_fields)
qed







section \<open>WebScraper: the render session\<close>












section \<open>The batch\<close>














lemma demo_env_fields:
  "cheerio demo_env = demo_cheerio"
  "url_hostname demo_env =
     (\<lambda>u. if startsWith u ''https://'' then Inr (takeWhile (\<lambda>c. c \<noteq> CHR ''/'') (drop 8 u))
          else Inl ''Invalid URL'')"
  "axios_get demo_env =
     (\<lambda>t u hs ms. if u = ''https://ok.test/'' then Inr pageLinks
                   else if u = ''https://js.test/'' then Inr pageScript
                   else Inl ''timeout of 15000ms exceeded'')"
  "platform_win32 demo_env = False"
  "fs_existsSync demo_env = (\<lambda>p. p = ''/usr/bin/google-chrome'')"
  "launch demo_env = (\<lambda>t p. None)"
  "newPage demo_env = (\<lambda>t. None)"
  "page_call demo_env =
     (\<lambda>t c. case c of
               Goto u ms \<Rightarrow> if u = ''https://down.test/''
                            then Some ''net::ERR_NAME_NOT_RESOLVED'' else None
             | _ \<Rightarrow> None)"
  "page_html demo_env = (\<lambda>t u hs. pageNav)"
  "render demo_env = (\<lambda>format c. Inr (title c))"
  "ch_load demo_cheerio = demo_load"
  by (simp_all add: demo_env_def demo_cheerio_def)



section \<open>The extractor and the rule engine\<close>

lemma resolveEach_resolved:
  "x \<in> set (resolveEach env d a base ns) \<Longrightarrow> \<exists>ref. ref \<noteq> [] \<and> new_URL env ref base = Some x"
  by (induction ns) (auto simp: given_def split: option.splits if_splits)

lemma resolvedOnly_dedupe_resolveEach:
  "resolvedOnly env base (dedupe (resolveEach env d a base ns))"
  using resolveEach_resolved by (fastforce simp: resolvedOnly_def dedupe_distinct set_dedupe)

lemma resolvedOnly_dedupe: "resolvedOnly env base xs \<Longrightarrow> resolvedOnly env base (dedupe xs)"
  by (simp add: resolvedOnly_def dedupe_distinct set_dedupe)

lemma extract_links:
  "\<exists>d2. links (extractContent env ts d u h)
          = dedupe (resolveEach env d2 ''href'' u (ch_select (cheerio env) d2 ''a[href]''))
      \<and> images (extractContent env ts d u h)
          = dedupe (resolveEach env d2 ''src'' u (ch_select (cheerio env) d2 ''img[src]''))"
  by (auto simp: extractContent_def Let_def split: prod.splits)

lemma extract_content_clean: "\<exists>t. content (extractContent env ts d u h) = cleanText t"
  by (auto simp: extractContent_def Let_def split: prod.splits)

lemma extract_content_idem:
  "cleanText (content (extractContent env ts d u h)) = content (extractContent env ts d u h)"
  using extract_content_clean[of env ts d u h] by (auto simp: cleanText_idem)

lemma extract_title_nonempty: "title (extractContent env ts d u h) \<noteq> []"
  by (auto simp: extractContent_def Let_def noTitle_def split: prod.splits)

lemma extract_resolved:
  "resolvedOnly env u (links (extractContent env ts d u h))
   \<and> resolvedOnly env u (images (extractContent env ts d u h))"
  using extract_links[of env ts d u h] by (auto simp: resolvedOnly_dedupe_resolveEach)

lemma ruleUrls_resolved:
  "ruleUrls env d selector a base old = Inr new \<Longrightarrow> resolvedOnly env base old \<Longrightarrow>
     resolvedOnly env base (dedupe new)"
  by (auto simp: ruleUrls_def bindE_def resolvedOnly_dedupe resolvedOnly_dedupe_resolveEach
      split: option.splits sum.splits)

lemma ruleUrls_None: "ruleUrls env d None a base old = Inr old"
  by (simp add: ruleUrls_def given_def)

lemma applyRules_Inr:
  assumes "applyRules env rs name c = Inr r"
  shows "\<exists>ruleSet d links' images'.
    rs name = Some ruleSet
    \<and> excludedDocument (cheerio env) (html c) (rs_rules ruleSet) = Inr d
    \<and> ruleUrls env d (rule_links (rs_rules ruleSet)) ''href'' (url c) (links c) = Inr links'
    \<and> ruleUrls env d (rule_images (rs_rules ruleSet)) ''src'' (url c) (images c) = Inr images'
    \<and> links r = dedupe links' \<and> images r = dedupe images' \<and> url r = url c \<and> html r = html c"
  using assms unfolding applyRules_def bindE_def Let_def
  by (auto split: option.splits sum.splits)

lemma contentLoop_nothing:
  "(\<And>d' s. ch_select ch d' s = []) \<Longrightarrow> contentLoop ch sels d t = (d, t)"
  by (induction sels arbitrary: d t) simp_all

lemma links_page_fields:
  "links (extractContent demo_env ts (demo_load pageLinks) u pageLinks) = [''https://ok.test/x'']"
  "images (extractContent demo_env ts (demo_load pageLinks) u pageLinks) = [''https://ok.test/i.png'']"
  by (simp_all add: extractContent_def demo_defs Let_def trim_def isSpace_def dedupe_def given_def
       contentSelectors_def)

lemma nav_page_fields:
  "title (extractContent demo_env ts (demo_load pageNav) u pageNav) = ''T''"
  "content (extractContent demo_env ts (demo_load pageNav) u pageNav) = ''X''"
  by (simp_all add: extractContent_def demo_defs Let_def trim_def isSpace_def cleanText_def
       dedupe_def given_def contentSelectors_def)

text \<open>
  C7: for every markup, address and behaviour of the parser and of the URL constructor, the
  extractor returns a record; no call in it can throw but \<^verbatim>\<open>new URL\<close>, whose error is
  caught. The title of the record is never empty and its body text is a normalised string.
  When nothing in the document matches any selector, the record has the placeholder title,
  an empty body, no links, no images and no metadata; when no reference resolves, it has no
  links and no images.
\<close>

theorem extract_never_fails:
  "title (extractContent env ts d u h) \<noteq> []
   \<and> cleanText (content (extractContent env ts d u h)) = content (extractContent env ts d u h)
   \<and> url (extractContent env ts d u h) = u
   \<and> html (extractContent env ts d u h) = h
   \<and> ((\<forall>d' s. ch_select (cheerio env) d' s = []) \<and> (\<forall>d'. ch_text (cheerio env) d' [] = [])
        \<longrightarrow> extractContent env ts d u h =
              \<lparr> url = u, title = noTitle, content = [], html = h, links = [], images = [],
                metadata = Map.empty, timestamp = now env ts \<rparr>)
   \<and> ((\<forall>ref. new_URL env ref u = None)
        \<longrightarrow> links (extractContent env ts d u h) = [] \<and> images (extractContent env ts d u h) = [])"
proof -
  have a: "extractContent env ts d u h =
              \<lparr> url = u, title = noTitle, content = [], html = h, links = [], images = [],
                metadata = Map.empty, timestamp = now env ts \<rparr>"
    if s: "\<forall>d' s. ch_select (cheerio env) d' s = []" and t: "\<forall>d'. ch_text (cheerio env) d' [] = []"
  proof -
    have l: "contentLoop (cheerio env) contentSelectors d [] = (d, [])"
      using s by (simp add: contentLoop_nothing)
    have c: "cleanText [] = []" by (simp add: cleanText_def trim_def)
    show ?thesis using s t l c by (simp add: extractContent_def Let_def trim_def dedupe_def)
  qed
  have r: "resolveEach env d2 a u ns = []" if n: "\<forall>ref. new_URL env ref u = None" for d2 a ns
    by (induction ns) (simp_all add: n split: option.splits)
  have b: "links (extractContent env ts d u h) = [] \<and> images (extractContent env ts d u h) = []"
    if n: "\<forall>ref. new_URL env ref u = None"
    using extract_links[of env ts d u h] r[OF n] by (auto simp: dedupe_def)
  show ?thesis
    using a b extract_title_nonempty[of env ts d u h] extract_content_idem[of env ts d u h]
      extract_fields(1,2)[of env ts d u h]
    by blast
qed

theorem extract_never_fails_witness:
  "extractContent blank_env 0 [] ''https://ok.test/'' ''<p>''
     = \<lparr> url = ''https://ok.test/'', title = noTitle, content = [], html = ''<p>'', links = [],
         images = [], metadata = Map.empty, timestamp = ''2025-01-01T00:00:00.000Z'' \<rparr>
   \<and> title (extractContent demo_env 0 (demo_load pageNav) ''https://ok.test/'' pageNav) \<noteq> []
   \<and> content (extractContent demo_env 0 (demo_load pageNav) ''https://ok.test/'' pageNav) = ''X''"
proof -
  have b: "extractContent blank_env 0 [] ''https://ok.test/'' ''<p>''
     = \<lparr> url = ''https://ok.test/'', title = noTitle, content = [], html = ''<p>'', links = [],
         images = [], metadata = Map.empty, timestamp = ''2025-01-01T00:00:00.000Z'' \<rparr>"
    using extract_never_fails[of blank_env 0 "[]" "''https://ok.test/''" "''<p>''"]
    by (simp add: blank_env_def demo_env_def demo_cheerio_def)
  have n: "title (extractContent demo_env 0 (demo_load pageNav) ''https://ok.test/'' pageNav) \<noteq> []"
    using extract_never_fails[of demo_env 0 "demo_load pageNav" "''https://ok.test/''" pageNav]
    by simp
  show ?thesis using b n nav_page_fields(2) by simp
qed

text \<open>
  C6: in the record of the extractor, and in the record that a rule set makes of it, the
  links and the images have no duplicates, and every entry is the address that \<^verbatim>\<open>new URL\<close>
  made of a non-empty reference and the base address: a reference that does not resolve
  leaves no entry.
\<close>

theorem links_resolved:
  "resolvedOnly env u (links (extractContent env ts d u h))
   \<and> resolvedOnly env u (images (extractContent env ts d u h))
   \<and> (applyRules env rs name (extractContent env ts d u h) = Inr r
        \<longrightarrow> resolvedOnly env u (links r) \<and> resolvedOnly env u (images r))"
proof -
  let ?c = "extractContent env ts d u h"
  have e: "resolvedOnly env u (links ?c)" "resolvedOnly env u (images ?c)"
    using extract_resolved[of env u ts d h] by simp_all
  have "resolvedOnly env u (links r) \<and> resolvedOnly env u (images r)"
    if a: "applyRules env rs name ?c = Inr r"
  proof -
    from applyRules_Inr[OF a] obtain ruleSet :: RuleSet and d' links' images' where
      l: "ruleUrls env d' (rule_links (rs_rules ruleSet)) ''href'' (url ?c) (links ?c) = Inr links'"
      and i: "ruleUrls env d' (rule_images (rs_rules ruleSet)) ''src'' (url ?c) (images ?c) = Inr images'"
      and r: "links r = dedupe links'" "images r = dedupe images'"
      by auto
    have u: "url ?c = u" by (rule extract_fields)
    show ?thesis
      using ruleUrls_resolved[OF l[unfolded u] e(1)] ruleUrls_resolved[OF i[unfolded u] e(2)] r
      by simp
  qed
  then show ?thesis using e by blast
qed

theorem links_resolved_witness:
  "links (extractContent demo_env 0 (demo_load pageLinks) ''https://ok.test/'' pageLinks)
     = [''https://ok.test/x'']
   \<and> (\<exists>ref. ref \<noteq> [] \<and> new_URL demo_env ref ''https://ok.test/'' = Some ''https://ok.test/x'')
   \<and> ''::bad'' \<notin> set (links (extractContent demo_env 0 (demo_load pageLinks) ''https://ok.test/'' pageLinks))"
  using links_resolved[of demo_env "''https://ok.test/''" 0 "demo_load pageLinks" pageLinks]
  by (simp add: resolvedOnly_def links_page_fields)

text \<open>
  C5: when a rule set is applied and its links selector is given (a non-empty string), the
  links of the result are the addresses resolved from the elements that the selector
  matches in the document after the exclusions, each once, whatever the links of the record
  were; when the selector matches no element, the result has no links. The same holds for
  the images selector. A selector that is not given leaves the links of the record.
\<close>

theorem rule_links_replace:
  assumes "applyRules env rs name c = Inr r"
    and "rs name = Some ruleSet"
    and "excludedDocument (cheerio env) (html c) (rs_rules ruleSet) = Inr d"
  shows "(case given (rule_links (rs_rules ruleSet)) of
            Some sel \<Rightarrow>
              links r = dedupe (resolveEach env d ''href'' (url c) (ch_select (cheerio env) d sel))
              \<and> (ch_select (cheerio env) d sel = [] \<longrightarrow> links r = [])
          | None \<Rightarrow> links r = dedupe (links c))
       \<and> (case given (rule_images (rs_rules ruleSet)) of
            Some sel \<Rightarrow>
              images r = dedupe (resolveEach env d ''src'' (url c) (ch_select (cheerio env) d sel))
              \<and> (ch_select (cheerio env) d sel = [] \<longrightarrow> images r = [])
          | None \<Rightarrow> images r = dedupe (images c))"
proof -
  from applyRules_Inr[OF assms(1)] assms(2,3) obtain links' images' where
    l: "ruleUrls env d (rule_links (rs_rules ruleSet)) ''href'' (url c) (links c) = Inr links'"
    and i: "ruleUrls env d (rule_images (rs_rules ruleSet)) ''src'' (url c) (images c) = Inr images'"
    and r: "links r = dedupe links'" "images r = dedupe images'"
    by auto
  have q: "\<And>sel ns. query (cheerio env) d sel = Inr ns \<Longrightarrow> ns = ch_select (cheerio env) d sel"
    by (auto simp: query_def split: option.splits)
  have a: "case given (rule_links (rs_rules ruleSet)) of
            Some sel \<Rightarrow>
              links r = dedupe (resolveEach env d ''href'' (url c) (ch_select (cheerio env) d sel))
              \<and> (ch_select (cheerio env) d sel = [] \<longrightarrow> links r = [])
          | None \<Rightarrow> links r = dedupe (links c)"
    using l r(1)
    by (auto simp: ruleUrls_def bindE_def dedupe_def dest: q split: option.splits sum.splits)
  have b: "case given (rule_images (rs_rules ruleSet)) of
            Some sel \<Rightarrow>
              images r = dedupe (resolveEach env d ''src'' (url c) (ch_select (cheerio env) d sel))
              \<and> (ch_select (cheerio env) d sel = [] \<longrightarrow> images r = [])
          | None \<Rightarrow> images r = dedupe (images c)"
    using i r(2)
    by (auto simp: ruleUrls_def bindE_def dedupe_def dest: q split: option.splits sum.splits)
  show ?thesis using a b by simp
qed

lemma demo_cheerio_fields:
  "ch_select demo_cheerio = demo_select"
  "ch_error demo_cheerio = (\<lambda>s. if s = ''!'' then Some ''Unmatched selector: !'' else None)"
  "ch_remove demo_cheerio = (\<lambda>d ns. filter (\<lambda>n. n \<notin> set ns) d)"
  by (simp_all add: demo_cheerio_def)

theorem rule_links_replace_witness:
  "links (extractContent demo_env 0 (demo_load pageLinks) ''https://ok.test/'' pageLinks)
     = [''https://ok.test/x'']
   \<and> links (projr (applyRules demo_env (demo_rules None None (Some ''nope'') None) ''demo''
        (extractContent demo_env 0 (demo_load pageLinks) ''https://ok.test/'' pageLinks))) = []"
proof -
  let ?c = "extractContent demo_env 0 (demo_load pageLinks) ''https://ok.test/'' pageLinks"
  let ?R = "\<lparr> rs_name = ''demo'',
              rs_rules = \<lparr> rule_title = None, rule_content = None, rule_links = Some ''nope'',
                           rule_images = None, rule_exclude = None, rule_custom = None \<rparr>,
              rs_description = None \<rparr>"
  have reg: "demo_rules None None (Some ''nope'') None ''demo'' = Some ?R"
    by (simp add: demo_rules_def)
  have ex: "excludedDocument (cheerio demo_env) (html ?c) (rs_rules ?R) = Inr (demo_load pageLinks)"
    by (simp add: excludedDocument_def extract_fields demo_env_fields)
  have "\<exists>r. applyRules demo_env (demo_rules None None (Some ''nope'') None) ''demo'' ?c = Inr r"
    using ex
    by (simp add: applyRules_def demo_rules_def Let_def bindE_def given_def ruleUrls_def query_def
        extract_fields demo_env_fields demo_cheerio_fields)
  then obtain r where a: "applyRules demo_env (demo_rules None None (Some ''nope'') None) ''demo'' ?c = Inr r"
    by blast
  have s: "ch_select (cheerio demo_env) (demo_load pageLinks) ''nope'' = []"
    by (simp add: demo_env_fields demo_cheerio_fields demo_select_def demo_tags_def demo_load_def)
  have "links r = []"
    using rule_links_replace[OF a reg ex] s by (simp add: given_def dedupe_def)
  then show ?thesis using a by (simp add: links_page_fields)
qed

text \<open>
  C4, as amended: for a record of the extractor and a registered rule set with no links and
  no images selector, whose selectors are well formed and whose title and content selectors
  match nothing in the stored markup once the excluded elements are removed from it (for a
  rule set without exclusions: nothing in the stored markup), applying the rule set gives
  the record with only its metadata extended; its title and body text are the ones before.
  The body text is kept because normalising a normalised text changes nothing.
\<close>

theorem rules_round_trip:
  assumes c: "c = extractContent env ts d0 u h"
    and reg: "rs name = Some ruleSet"
    and nl: "rule_links (rs_rules ruleSet) = None"
    and ni: "rule_images (rs_rules ruleSet) = None"
    and ex: "excludedDocument (cheerio env) h (rs_rules ruleSet) = Inr d"
    and t: "case given (rule_title (rs_rules ruleSet)) of
              None \<Rightarrow> True | Some sel \<Rightarrow> query (cheerio env) d sel = Inr []"
    and b: "case given (rule_content (rs_rules ruleSet)) of
              None \<Rightarrow> True | Some sel \<Rightarrow> query (cheerio env) d sel = Inr []"
    and cu: "(case rule_custom (rs_rules ruleSet) of
                Some custom \<Rightarrow> applyCustom (cheerio env) d custom Map.empty
              | None \<Rightarrow> Inr Map.empty) = Inr customData"
  shows "applyRules env rs name c =
           Inr (c\<lparr> metadata := (metadata c)(''customData'' \<mapsto> CustomData customData,
                                            ''appliedRuleSet'' \<mapsto> MetaText name) \<rparr>)
         \<and> title (projr (applyRules env rs name c)) = title c
         \<and> content (projr (applyRules env rs name c)) = content c"
proof -
  have h: "html c = h" unfolding c by (rule extract_fields)
  have cl: "cleanText (content c) = content c" unfolding c by (rule extract_content_idem)
  have dl: "dedupe (links c) = links c" "dedupe (images c) = images c"
    using extract_resolved[of env u ts d0 h] unfolding c
    by (simp_all add: resolvedOnly_def dedupe_id)
  have t': "(case given (rule_title (rs_rules ruleSet)) of
               None \<Rightarrow> Inr (title c)
             | Some sel \<Rightarrow>
                 bindE (query (cheerio env) d sel)
                   (\<lambda>ns. Inr (if length (take 1 ns) > 0 then trim (ch_text (cheerio env) d (take 1 ns))
                              else title c))) = Inr (title c)"
    using t by (simp add: bindE_def split: option.splits)
  have b': "(case given (rule_content (rs_rules ruleSet)) of
               None \<Rightarrow> Inr (content c)
             | Some sel \<Rightarrow>
                 bindE (query (cheerio env) d sel)
                   (\<lambda>ns. Inr (if length ns > 0
                              then join [CHR 0x0A, CHR 0x0A] (map (\<lambda>el. ch_text (cheerio env) d [el]) ns)
                              else content c))) = Inr (content c)"
    using b by (simp add: bindE_def split: option.splits)
  have e: "applyRules env rs name c =
           Inr (c\<lparr> metadata := (metadata c)(''customData'' \<mapsto> CustomData customData,
                                            ''appliedRuleSet'' \<mapsto> MetaText name) \<rparr>)"
    unfolding applyRules_def
    by (simp add: reg Let_def h ex t' b' cu nl ni ruleUrls_None bindE_Inr cl dl)
  show ?thesis by (simp add: e)
qed

theorem rules_round_trip_witness:
  "title (projr (applyRules demo_env (demo_rules (Some ''h2'') (Some ''main'') None (Some [''nav''])) ''demo''
      (extractContent demo_env 0 (demo_load pageNav) ''https://ok.test/'' pageNav))) = ''T''
   \<and> content (projr (applyRules demo_env (demo_rules (Some ''h2'') (Some ''main'') None (Some [''nav''])) ''demo''
      (extractContent demo_env 0 (demo_load pageNav) ''https://ok.test/'' pageNav))) = ''X''"
proof -
  let ?R = "\<lparr> rs_name = ''demo'',
              rs_rules = \<lparr> rule_title = Some ''h2'', rule_content = Some ''main'', rule_links = None,
                           rule_images = None, rule_exclude = Some [''nav''], rule_custom = None \<rparr>,
              rs_description = None \<rparr>"
  let ?d = "[(''title'', [], ''T''), (''body'', [], []), (''h1'', [], ''X'')] :: demo_node list"
  have reg: "demo_rules (Some ''h2'') (Some ''main'') None (Some [''nav'']) ''demo'' = Some ?R"
    by (simp add: demo_rules_def)
  have ex: "excludedDocument (cheerio demo_env) pageNav (rs_rules ?R) = Inr ?d"
    by (simp add: excludedDocument_def query_def demo_env_fields demo_cheerio_fields demo_select_def
        demo_tags_def demo_load_def pageNav_def pageLinks_def pageScript_def)
  have t: "case given (rule_title (rs_rules ?R)) of
             None \<Rightarrow> True | Some sel \<Rightarrow> query (cheerio demo_env) ?d sel = Inr []"
    by (simp add: given_def query_def demo_env_fields demo_cheerio_fields demo_select_def demo_tags_def)
  have b: "case given (rule_content (rs_rules ?R)) of
             None \<Rightarrow> True | Some sel \<Rightarrow> query (cheerio demo_env) ?d sel = Inr []"
    by (simp add: given_def query_def demo_env_fields demo_cheerio_fields demo_select_def demo_tags_def)
  have cu: "(case rule_custom (rs_rules ?R) of
                Some custom \<Rightarrow> applyCustom (cheerio demo_env) ?d custom Map.empty
              | None \<Rightarrow> Inr Map.empty) = Inr Map.empty"
    by simp
  show ?thesis
    using rules_round_trip
      [where env = demo_env and ts = 0 and ?d0.0 = "demo_load pageNav" and u = "''https://ok.test/''"
         and h = pageNav and name = "''demo''" and ruleSet = ?R and d = ?d
         and rs = "demo_rules (Some ''h2'') (Some ''main'') None (Some [''nav''])"
         and customData = Map.empty
         and c = "extractContent demo_env 0 (demo_load pageNav) ''https://ok.test/'' pageNav",
       OF refl reg _ _ ex t b cu]
    by (simp add: nav_page_fields)
qed

text \<open>
  Against C4 as stated: on \<open>pageNav\<close> the title selector \<^verbatim>\<open>h1:first-child\<close> and the content
  selector \<^verbatim>\<open>main\<close> match nothing in the stored markup, and the rule set has no links
  and no images selector; it excludes \<^verbatim>\<open>nav\<close>, after which the \<^verbatim>\<open>h1\<close> is the first
  child of the body, and the title of the result is the text of the \<^verbatim>\<open>h1\<close>, not the
  title before.
\<close>

theorem round_trip_exclusion_counterexample:
  "ch_select demo_cheerio (ch_load demo_cheerio pageNav) ''h1:first-child'' = []
   \<and> ch_select demo_cheerio (ch_load demo_cheerio pageNav) ''main'' = []
   \<and> title (extractContent demo_env 0 (demo_load pageNav) ''https://ok.test/'' pageNav) = ''T''
   \<and> \<not> isl (applyRules demo_env
                (demo_rules (Some ''h1:first-child'') (Some ''main'') None (Some [''nav''])) ''demo''
                (extractContent demo_env 0 (demo_load pageNav) ''https://ok.test/'' pageNav))
   \<and> title (projr (applyRules demo_env
                (demo_rules (Some ''h1:first-child'') (Some ''main'') None (Some [''nav''])) ''demo''
                (extractContent demo_env 0 (demo_load pageNav) ''https://ok.test/'' pageNav))) = ''X''"
proof -
  let ?c = "extractContent demo_env 0 (demo_load pageNav) ''https://ok.test/'' pageNav"
  have a: "ch_select demo_cheerio (ch_load demo_cheerio pageNav) ''h1:first-child'' = []"
          "ch_select demo_cheerio (ch_load demo_cheerio pageNav) ''main'' = []"
    by (simp_all add: demo_defs)
  have e: "excludedDocument demo_cheerio pageNav
             (rs_rules (the (demo_rules (Some ''h1:first-child'') (Some ''main'') None (Some [''nav'']) ''demo'')))
           = Inr [(''title'', [], ''T''), (''body'', [], []), (''h1'', [], ''X'')]"
    by (simp add: excludedDocument_def demo_rules_def query_def demo_defs)
  have r: "applyRules demo_env (demo_rules (Some ''h1:first-child'') (Some ''main'') None (Some [''nav''])) ''demo'' ?c
          = Inr (?c\<lparr> title := ''X'', content := cleanText (content ?c), links := dedupe (links ?c),
                      images := dedupe (images ?c),
                      metadata := (metadata ?c)(''customData'' \<mapsto> CustomData Map.empty,
                                               ''appliedRuleSet'' \<mapsto> MetaText ''demo'') \<rparr>)"
    using e
    by (simp add: applyRules_def Let_def extract_fields bindE_def given_def ruleUrls_def query_def
         demo_rules_def demo_env_fields demo_cheerio_def demo_select_def demo_children_def
         demo_tags_def trim_def isSpace_def)
  show ?thesis using a nav_page_fields(1) by (simp add: r)
qed

section \<open>The header store in a request\<close>



end
